theory Spec2Isabelle
  imports Complex_Main "HOL-Library.Code_Target_Numeral"
begin

section \<open>Python values used by app.py\<close>

text \<open>
  A Python \<open>float\<close> is an IEEE double. It is modelled by the real number it denotes, or by
  one of the three special values. Comparison of doubles is exact on the denoted reals, and
  every comparison with NaN is false.
\<close>

datatype pyfloat = Finite real | PosInf | NegInf | NaN

definition py_ge :: "pyfloat \<Rightarrow> pyfloat \<Rightarrow> bool" where
  \<comment> \<open>Python's \<open>a >= b\<close> on floats.\<close>
  "py_ge a b =
     (case (a, b) of
        (NaN, _) \<Rightarrow> False
      | (_, NaN) \<Rightarrow> False
      | (PosInf, _) \<Rightarrow> True
      | (_, NegInf) \<Rightarrow> True
      | (Finite x, Finite y) \<Rightarrow> y \<le> x
      | _ \<Rightarrow> False)"

text \<open>
  The value \<open>json.load\<close> returns: \<open>None\<close>, a bool, an int (unbounded), a float, a str, a
  list or a dict with string keys.
\<close>

datatype json =
    JNull
  | JBool bool
  | JInt int
  | JFloat pyfloat
  | JStr string
  | JList "json list"
  | JDict "string \<Rightarrow> json option"

text \<open>
  The exceptions the threshold block of app.py can meet. All of them are instances of
  Python's \<open>Exception\<close>, the class its \<open>except\<close> clause names.
\<close>

datatype py_error =
    FileNotFoundError
  | OSError
  | JSONDecodeError
  | AttributeError
  | TypeError
  | ValueError
  | OverflowError

fun bit_length :: "nat \<Rightarrow> nat" where
  "bit_length n = (if n = 0 then 0 else Suc (bit_length (n div 2)))"

declare bit_length.simps [simp del]

definition float_of_int :: "int \<Rightarrow> py_error + pyfloat" where
  \<comment> \<open>\<open>float(n)\<close> for an int: exact below \<open>2^53\<close>, otherwise rounded to 53 significant bits,
      ties to even; OverflowError when the rounded value does not fit a double.\<close>
  "float_of_int n =
     (if \<bar>n\<bar> < 2 ^ 53 then Inr (Finite (of_int n))
      else
        let a = nat \<bar>n\<bar>;
            s = bit_length a - 53;
            q = a div 2 ^ s;
            r = a mod 2 ^ s;
            half = 2 ^ (s - 1);
            q' = (if half < r \<or> (r = half \<and> odd q) then q + 1 else q);
            m = q' * 2 ^ s
        in if 2 ^ 1024 \<le> m then Inl OverflowError
           else Inr (Finite (of_int (sgn n * int m))))"

definition py_float :: "(string \<Rightarrow> pyfloat option) \<Rightarrow> json \<Rightarrow> py_error + pyfloat" where
  \<comment> \<open>The builtin \<open>float(v)\<close>. How Python reads a string as a float is the parameter
      \<open>str_float\<close> (\<open>None\<close>: the string is no float literal, ValueError); every theorem
      below holds for any such reading.\<close>
  "py_float str_float v =
     (case v of
        JFloat x \<Rightarrow> Inr x
      | JInt n \<Rightarrow> float_of_int n
      | JBool b \<Rightarrow> Inr (Finite (if b then 1 else 0))
      | JStr s \<Rightarrow> (case str_float s of Some x \<Rightarrow> Inr x | None \<Rightarrow> Inl ValueError)
      | JNull \<Rightarrow> Inl TypeError
      | JList _ \<Rightarrow> Inl TypeError
      | JDict _ \<Rightarrow> Inl TypeError)"

definition dict_get :: "json \<Rightarrow> string \<Rightarrow> json \<Rightarrow> py_error + json" where
  \<comment> \<open>\<open>obj.get(k, d)\<close>: only a dict has the method.\<close>
  "dict_get obj k d =
     (case obj of
        JDict m \<Rightarrow> Inr (case m k of Some v \<Rightarrow> v | None \<Rightarrow> d)
      | _ \<Rightarrow> Inl AttributeError)"

section \<open>Threshold resolution (app.py, lines 15 to 27)\<close>

text \<open>
  What \<open>open(THR_PATH)\<close> followed by \<open>json.load(f)\<close> meets: no file, a file that cannot be
  opened or decoded, text that is not JSON, or a parsed value.
\<close>

datatype thr_file = Absent | Unreadable | InvalidJSON | Parsed json

definition DEFAULT_THR :: pyfloat where
  "DEFAULT_THR = Finite 0.5"

definition json_load :: "thr_file \<Rightarrow> py_error + json" where
  "json_load f =
     (case f of
        Absent \<Rightarrow> Inl FileNotFoundError
      | Unreadable \<Rightarrow> Inl OSError
      | InvalidJSON \<Rightarrow> Inl JSONDecodeError
      | Parsed j \<Rightarrow> Inr j)"

definition thr_cfg_value :: "thr_file \<Rightarrow> py_error + json" where
  \<comment> \<open>\<open>thr_cfg.get("threshold_Youden", thr_cfg.get("threshold_Chosen", DEFAULT_THR))\<close>,
      the argument of \<open>float\<close> on line 22.\<close>
  "thr_cfg_value f =
     (case json_load f of
        Inl e \<Rightarrow> Inl e
      | Inr thr_cfg \<Rightarrow>
          (case dict_get thr_cfg ''threshold_Chosen'' (JFloat DEFAULT_THR) of
             Inl e \<Rightarrow> Inl e
           | Inr inner \<Rightarrow> dict_get thr_cfg ''threshold_Youden'' inner))"

definition read_threshold :: "(string \<Rightarrow> pyfloat option) \<Rightarrow> thr_file \<Rightarrow> py_error + pyfloat" where
  \<comment> \<open>The body of the \<open>try\<close>, up to the assignment of THRESHOLD.\<close>
  "read_threshold str_float f =
     (case thr_cfg_value f of
        Inl e \<Rightarrow> Inl e
      | Inr v \<Rightarrow> py_float str_float v)"

definition resolve_threshold :: "(string \<Rightarrow> pyfloat option) \<Rightarrow> thr_file \<Rightarrow> pyfloat \<times> string" where
  \<comment> \<open>The whole \<open>try\<close>/\<open>except Exception\<close>: the pair (THRESHOLD, thr_source).\<close>
  "resolve_threshold str_float f =
     (case read_threshold str_float f of
        Inr t \<Rightarrow> (t, ''Youden (from rf_thresholds.json)'')
      | Inl e \<Rightarrow> (DEFAULT_THR, ''Default 0.5 (threshold file missing)''))"

definition in_unit_interval :: "pyfloat \<Rightarrow> bool" where
  "in_unit_interval t = (case t of Finite x \<Rightarrow> 0 \<le> x \<and> x \<le> 1 | _ \<Rightarrow> False)"

section \<open>The form and the record (app.py, lines 68 to 130)\<close>

text \<open>The values the widgets return, one field for each widget of the form.\<close>

record form_inputs =
  Gender :: int
  Herniated_Level :: string
  Priffmann :: int
  Iwabuchi :: int
  Modic :: int
  Komori :: int
  MSU :: int
  Spinal_canal_stenosis :: int
  Bull_eye :: int
  Age :: int
  SS :: pyfloat
  Months_of_Review :: int
  Initial_volume :: pyfloat
  Upper_VB_Posterior_Height_CM :: pyfloat
  Lower_VB_Posterior_Height_CM :: pyfloat

datatype cell = IntCell int | FloatCell pyfloat | StrCell string | MissingCell

definition FEATURES :: "string list" where
  "FEATURES =
     [''Age'', ''Gender'', ''Herniated_Level'', ''Priffmann'', ''Iwabuchi'', ''Modic'',
      ''Komori'', ''MSU'', ''Spinal_canal_stenosis'', ''Bull_eye'', ''SS'',
      ''Upper_VB_Posterior_Height_CM'', ''Lower_VB_Posterior_Height_CM'',
      ''Initial_volume'', ''Months_of_Review'']"

definition gender_label :: "int \<Rightarrow> string" where
  "gender_label g = (if g = 1 then ''Male'' else ''Female'')"

definition row :: "form_inputs \<Rightarrow> (string \<times> cell) list" where
  \<comment> \<open>The dict literal of line 113, in the order it is written.\<close>
  "row f =
     [(''Age'', IntCell (Age f)),
      (''Gender'', StrCell (gender_label (Gender f))),
      (''Herniated_Level'', StrCell (Herniated_Level f)),
      (''Priffmann'', IntCell (Priffmann f)),
      (''Iwabuchi'', IntCell (Iwabuchi f)),
      (''Modic'', IntCell (Modic f)),
      (''Komori'', IntCell (Komori f)),
      (''MSU'', IntCell (MSU f)),
      (''Spinal_canal_stenosis'', IntCell (Spinal_canal_stenosis f)),
      (''Bull_eye'', IntCell (Bull_eye f)),
      (''SS'', FloatCell (SS f)),
      (''Upper_VB_Posterior_Height_CM'', FloatCell (Upper_VB_Posterior_Height_CM f)),
      (''Lower_VB_Posterior_Height_CM'', FloatCell (Lower_VB_Posterior_Height_CM f)),
      (''Initial_volume'', FloatCell (Initial_volume f)),
      (''Months_of_Review'', IntCell (Months_of_Review f))]"

record dataframe =
  df_columns :: "string list"
  df_rows :: "cell list list"

definition DataFrame :: "(string \<times> cell) list list \<Rightarrow> string list \<Rightarrow> dataframe" where
  \<comment> \<open>\<open>pd.DataFrame(data, columns=cols)\<close> on a list of dicts: the columns are \<open>cols\<close> in
      that order, each row is read by column name, a key the dict lacks gives a missing
      cell and a key outside \<open>cols\<close> is dropped.\<close>
  "DataFrame data cols =
     \<lparr>df_columns = cols,
      df_rows = map (\<lambda>d. map (\<lambda>c. case map_of d c of Some v \<Rightarrow> v | None \<Rightarrow> MissingCell) cols) data\<rparr>"

definition X_input :: "form_inputs \<Rightarrow> dataframe" where
  "X_input f = DataFrame [row f] FEATURES"

section \<open>What a run of the script does\<close>

text \<open>
  An exception object \<open>e\<close> raised inside \<open>joblib.load\<close> or inside the model's
  \<open>predict_proba\<close>: an instance of Python's \<open>Exception\<close>, the class the handlers of app.py
  name. The string is \<open>str(e)\<close>, which the handlers print.
\<close>

datatype raised = Exception (exc_str: string)

text \<open>
  The loaded pipeline, as far as app.py uses it: \<open>model.predict_proba(X)[:, 1][0]\<close> either
  raises or gives the probability of the positive class.
\<close>

type_synonym model = "dataframe \<Rightarrow> raised + pyfloat"

text \<open>What is at MODEL_PATH: nothing, a file \<open>joblib.load\<close> fails on, or a pipeline.\<close>

datatype model_file = NoFile | LoadFails raised | Loads model

text \<open>
  An f-string is kept as its pieces: literal text and the floats formatted with \<open>.4f\<close> or
  \<open>.2%\<close>. Text outside ASCII is given by its UTF-8 bytes.
\<close>

datatype piece = Lit string | Fmt_4f pyfloat | Fmt_2pct pyfloat

definition em_dash :: string where
  "em_dash = [CHR 0xE2, CHR 0x80, CHR 0x94]"

definition wide_bar :: string where
  "wide_bar = [CHR 0xEF, CHR 0xBD, CHR 0x9C]"

definition warning_sign :: string where
  "warning_sign = [CHR 0xE2, CHR 0x9A, CHR 0xA0, CHR 0xEF, CHR 0xB8, CHR 0x8F]"

definition superscript_three :: string where
  "superscript_three = [CHR 0xC2, CHR 0xB3]"

text \<open>
  The effects of a run, in order: the Streamlit calls that render something or stop the
  script, and the two calls into the pipeline's library.
\<close>

datatype event =
    st_set_page_config string string
  | st_caption "piece list"
  | st_error "piece list"
  | st_stop
  | st_title string
  | st_info "piece list"
  | st_subheader string
  | st_columns nat
  | st_selectbox string
  | st_number_input string
  | st_divider
  | st_write string
  | st_dataframe dataframe
  | st_button string
  | st_success "piece list"
  | joblib_load string
  | predict_proba dataframe

definition load_model :: "model_file \<Rightarrow> string \<Rightarrow> event list \<times> model option" where
  \<comment> \<open>Lines 31 to 40. \<open>None\<close>: \<open>st.stop()\<close> was called and the run is over. The decorator
      \<open>st.cache_resource\<close> keeps a returned model for later runs; a run that stops returns
      nothing to keep.\<close>
  "load_model file pkl_path =
     (case file of
        NoFile \<Rightarrow>
          ([st_error [Lit ''Model file not found: '', Lit pkl_path], st_stop], None)
      | LoadFails e \<Rightarrow>
          ([joblib_load pkl_path,
            st_error [Lit ''Model loading failed: '', Lit (exc_str e)], st_stop], None)
      | Loads m \<Rightarrow> ([joblib_load pkl_path], Some m))"

text \<open>
  The variables of the script a predict trigger can see: the resolved threshold and its
  label, the loaded model, the widgets' values, and the three names the handler binds.
\<close>

record session =
  THRESHOLD :: pyfloat
  thr_source :: string
  model :: model
  inputs :: form_inputs
  proba :: "pyfloat option"
  pred_cls :: "int option"
  label :: "string option"

definition on_predict :: "session \<Rightarrow> session \<times> event list" where
  \<comment> \<open>Lines 138 to 145, the body under \<open>if st.button(...)\<close>.\<close>
  "on_predict s =
     (case model s (X_input (inputs s)) of
        Inr p \<Rightarrow>
          (let c = (if py_ge p (THRESHOLD s) then 1 else 0);
               l = (if c = 1 then ''Resorption (1)'' else ''Non-resorption (0)'')
           in (s\<lparr>proba := Some p, pred_cls := Some c, label := Some l\<rparr>,
               [predict_proba (X_input (inputs s)),
                st_success
                  [Lit ''Predicted probability: '', Fmt_2pct p,
                   Lit ('' '' @ wide_bar @ '' Threshold: ''), Fmt_4f (THRESHOLD s),
                   Lit ('' '' @ wide_bar @ '' Classification: ''), Lit l]]))
      | Inl e \<Rightarrow>
          (s,
           [predict_proba (X_input (inputs s)),
            st_error [Lit ''Prediction failed: '', Lit (exc_str e)],
            st_info
              [Lit (''Please check that the feature names and values match the training set. '' @
                    ''The pipeline already includes OHE and scaling.'')]]))"

definition form_events :: "event list" where
  \<comment> \<open>Lines 76 to 108: the widgets, in the order the script creates them.\<close>
  "form_events =
     [st_subheader ''Patient Characteristics Input'',
      st_columns 2,
      st_selectbox ''Gender (Female=0, Male=1)'',
      st_selectbox ''Herniated_Level'',
      st_selectbox ''Priffmann'',
      st_selectbox ''Iwabuchi'',
      st_selectbox ''Modic'',
      st_selectbox ''Komori'',
      st_selectbox ''MSU'',
      st_selectbox ''Spinal_canal_stenosis (0=No, 1=Yes)'',
      st_selectbox ''Bull_eye'',
      st_columns 2,
      st_number_input ''Age'',
      st_number_input ''SS'',
      st_number_input ''Months_of_Review'',
      st_number_input (''Initial_volume (cm'' @ superscript_three @ '')''),
      st_number_input ''Upper_VB_Posterior_Height_CM'',
      st_number_input ''Lower_VB_Posterior_Height_CM'']"

text \<open>
  What one run of app.py meets: the threshold file, the model file and its path, the
  values the widgets return, and whether the button was pressed.
\<close>

record env =
  threshold_file :: thr_file
  MODEL_PATH :: string
  pkl_file :: model_file
  widgets :: form_inputs
  button_pressed :: bool

definition app :: "(string \<Rightarrow> pyfloat option) \<Rightarrow> env \<Rightarrow> event list" where
  \<comment> \<open>The script from top to bottom.\<close>
  "app str_float e =
     (let (thr, src) = resolve_threshold str_float (threshold_file e)
      in [st_set_page_config
            ''Lumbar Disc Herniation Resorption Probability Calculator (Random Forest)''
            ''centered'',
          st_caption
            [Lit ''Current classification threshold: '', Fmt_4f thr,
             Lit (''  '' @ em_dash @ ''  ''), Lit src]] @
         (case load_model (pkl_file e) (MODEL_PATH e) of
            (loading, None) \<Rightarrow> loading
          | (loading, Some m) \<Rightarrow>
              loading @
              [st_title ''Prediction of Lumbar Disc Herniation Resorption (Random Forest)'',
               st_caption
                 [Lit (warning_sign @
                    '' For research and decision support only, not for clinical use'')],
               st_info [Lit ''Model successfully loaded: '', Lit (MODEL_PATH e)]] @
              form_events @
              [st_divider,
               st_write ''**Current Input Preview:**'',
               st_dataframe (X_input (widgets e)),
               st_divider,
               st_button ''Predict Resorption Probability''] @
              (if button_pressed e
               then snd (on_predict
                      \<lparr>THRESHOLD = thr, thr_source = src, model = m, inputs = widgets e,
                       proba = None, pred_cls = None, label = None\<rparr>)
               else [])))"

definition renders_widget :: "event \<Rightarrow> bool" where
  "renders_widget ev =
     (case ev of
        st_selectbox _ \<Rightarrow> True
      | st_number_input _ \<Rightarrow> True
      | st_button _ \<Rightarrow> True
      | _ \<Rightarrow> False)"

definition calls_predict_proba :: "event \<Rightarrow> bool" where
  "calls_predict_proba ev = (case ev of predict_proba _ \<Rightarrow> True | _ \<Rightarrow> False)"

definition calls_joblib_load :: "event \<Rightarrow> bool" where
  "calls_joblib_load ev = (case ev of joblib_load _ \<Rightarrow> True | _ \<Rightarrow> False)"

definition renders_error :: "event \<Rightarrow> bool" where
  "renders_error ev = (case ev of st_error _ \<Rightarrow> True | _ \<Rightarrow> False)"

text \<open>The example of the spec: the values the form shows before the user changes any.\<close>

definition example_inputs :: form_inputs where
  "example_inputs =
     \<lparr>Gender = 1, Herniated_Level = ''L4/5'', Priffmann = 2, Iwabuchi = 2, Modic = 0,
      Komori = 2, MSU = 2, Spinal_canal_stenosis = 0, Bull_eye = 1, Age = 50,
      SS = Finite 30.0, Months_of_Review = 6, Initial_volume = Finite 4.0,
      Upper_VB_Posterior_Height_CM = Finite 2.5, Lower_VB_Posterior_Height_CM = Finite 2.4\<rparr>"

section \<open>Threshold resolution: what the value is\<close>

lemma thr_cfg_value_no_file:
  "thr_cfg_value Absent = Inl FileNotFoundError"
  "thr_cfg_value Unreadable = Inl OSError"
  "thr_cfg_value InvalidJSON = Inl JSONDecodeError"
  by (simp_all add: thr_cfg_value_def json_load_def)

lemma thr_cfg_value_not_dict:
  "\<forall>m. j \<noteq> JDict m \<Longrightarrow> thr_cfg_value (Parsed j) = Inl AttributeError"
  by (cases j) (simp_all add: thr_cfg_value_def json_load_def dict_get_def)

lemma thr_cfg_value_dict:
  "thr_cfg_value (Parsed (JDict m)) =
     Inr (case m ''threshold_Youden'' of
            Some v \<Rightarrow> v
          | None \<Rightarrow> (case m ''threshold_Chosen'' of Some v \<Rightarrow> v | None \<Rightarrow> JFloat DEFAULT_THR))"
  by (simp add: thr_cfg_value_def json_load_def dict_get_def)

lemma resolve_threshold_no_value:
  "thr_cfg_value f = Inl e \<Longrightarrow>
     resolve_threshold sf f = (Finite 0.5, ''Default 0.5 (threshold file missing)'')"
  by (simp add: resolve_threshold_def read_threshold_def DEFAULT_THR_def)

lemma resolve_threshold_conversion_fails:
  "thr_cfg_value f = Inr v \<Longrightarrow> py_float sf v = Inl e \<Longrightarrow>
     resolve_threshold sf f = (Finite 0.5, ''Default 0.5 (threshold file missing)'')"
  by (simp add: resolve_threshold_def read_threshold_def DEFAULT_THR_def)

lemma resolve_threshold_converted:
  "thr_cfg_value f = Inr v \<Longrightarrow> py_float sf v = Inr t \<Longrightarrow>
     resolve_threshold sf f = (t, ''Youden (from rf_thresholds.json)'')"
  by (simp add: resolve_threshold_def read_threshold_def)

lemma py_float_JFloat: "py_float sf (JFloat t) = Inr t"
  by (simp add: py_float_def)

lemma py_float_small_int: "\<bar>n\<bar> < 2 ^ 53 \<Longrightarrow> py_float sf (JInt n) = Inr (Finite (of_int n))"
  by (simp add: py_float_def float_of_int_def)

lemma py_float_not_a_number:
  "py_float sf JNull = Inl TypeError"
  "py_float sf (JList xs) = Inl TypeError"
  "py_float sf (JDict d) = Inl TypeError"
  "sf s = None \<Longrightarrow> py_float sf (JStr s) = Inl ValueError"
  by (simp_all add: py_float_def)

text \<open>
  C2. The value under "threshold_Youden" is used whenever the key is there, whatever else
  the file holds; without it the value under "threshold_Chosen" is used; with neither key,
  with no file and with invalid JSON the threshold is exactly 0.5. A value is a JSON
  number: a float, or an int that a double holds exactly.
\<close>

theorem threshold_priority:
  "(m ''threshold_Youden'' = Some (JFloat y) \<longrightarrow>
      fst (resolve_threshold sf (Parsed (JDict m))) = y)
   \<and> (m ''threshold_Youden'' = Some (JInt n) \<and> \<bar>n\<bar> < 2 ^ 53 \<longrightarrow>
      fst (resolve_threshold sf (Parsed (JDict m))) = Finite (of_int n))
   \<and> (m ''threshold_Youden'' = None \<and> m ''threshold_Chosen'' = Some (JFloat c) \<longrightarrow>
      fst (resolve_threshold sf (Parsed (JDict m))) = c)
   \<and> (m ''threshold_Youden'' = None \<and> m ''threshold_Chosen'' = Some (JInt k) \<and> \<bar>k\<bar> < 2 ^ 53 \<longrightarrow>
      fst (resolve_threshold sf (Parsed (JDict m))) = Finite (of_int k))
   \<and> (m ''threshold_Youden'' = None \<and> m ''threshold_Chosen'' = None \<longrightarrow>
      fst (resolve_threshold sf (Parsed (JDict m))) = Finite 0.5)
   \<and> fst (resolve_threshold sf Absent) = Finite 0.5
   \<and> fst (resolve_threshold sf InvalidJSON) = Finite 0.5"
proof (intro conjI impI)
  assume "m ''threshold_Youden'' = Some (JFloat y)"
  then have "thr_cfg_value (Parsed (JDict m)) = Inr (JFloat y)"
    by (simp add: thr_cfg_value_dict)
  then show "fst (resolve_threshold sf (Parsed (JDict m))) = y"
    by (simp add: resolve_threshold_converted py_float_JFloat)
next
  assume "m ''threshold_Youden'' = Some (JInt n) \<and> \<bar>n\<bar> < 2 ^ 53"
  then have "thr_cfg_value (Parsed (JDict m)) = Inr (JInt n)" and "\<bar>n\<bar> < 2 ^ 53"
    by (simp_all add: thr_cfg_value_dict)
  then show "fst (resolve_threshold sf (Parsed (JDict m))) = Finite (of_int n)"
    by (simp add: resolve_threshold_converted py_float_small_int)
next
  assume "m ''threshold_Youden'' = None \<and> m ''threshold_Chosen'' = Some (JFloat c)"
  then have "thr_cfg_value (Parsed (JDict m)) = Inr (JFloat c)"
    by (simp add: thr_cfg_value_dict)
  then show "fst (resolve_threshold sf (Parsed (JDict m))) = c"
    by (simp add: resolve_threshold_converted py_float_JFloat)
next
  assume "m ''threshold_Youden'' = None \<and> m ''threshold_Chosen'' = Some (JInt k) \<and> \<bar>k\<bar> < 2 ^ 53"
  then have "thr_cfg_value (Parsed (JDict m)) = Inr (JInt k)" and "\<bar>k\<bar> < 2 ^ 53"
    by (simp_all add: thr_cfg_value_dict)
  then show "fst (resolve_threshold sf (Parsed (JDict m))) = Finite (of_int k)"
    by (simp add: resolve_threshold_converted py_float_small_int)
next
  assume "m ''threshold_Youden'' = None \<and> m ''threshold_Chosen'' = None"
  then have "thr_cfg_value (Parsed (JDict m)) = Inr (JFloat DEFAULT_THR)"
    by (simp add: thr_cfg_value_dict)
  then show "fst (resolve_threshold sf (Parsed (JDict m))) = Finite 0.5"
    by (simp add: resolve_threshold_converted py_float_JFloat DEFAULT_THR_def)
next
  show "fst (resolve_threshold sf Absent) = Finite 0.5"
    by (simp add: resolve_threshold_no_value thr_cfg_value_no_file)
next
  show "fst (resolve_threshold sf InvalidJSON) = Finite 0.5"
    by (simp add: resolve_threshold_no_value thr_cfg_value_no_file)
qed

theorem threshold_priority_witness:
  "fst (resolve_threshold Map.empty
      (Parsed (JDict [''threshold_Youden'' \<mapsto> JFloat (Finite 0.25)]))) = Finite 0.25
   \<and> fst (resolve_threshold Map.empty
      (Parsed (JDict [''threshold_Chosen'' \<mapsto> JFloat (Finite 0.75)]))) = Finite 0.75
   \<and> fst (resolve_threshold Map.empty
      (Parsed (JDict [''threshold_Chosen'' \<mapsto> JFloat (Finite 0.75),
                      ''threshold_Youden'' \<mapsto> JFloat (Finite 0.25)]))) = Finite 0.25
   \<and> fst (resolve_threshold Map.empty (Parsed (JDict [''threshold_Youden'' \<mapsto> JInt 1]))) = Finite 1
   \<and> fst (resolve_threshold Map.empty (Parsed (JDict Map.empty))) = Finite 0.5"
  using
    threshold_priority [where m = "[''threshold_Youden'' \<mapsto> JFloat (Finite 0.25)]"
      and y = "Finite 0.25" and n = 0 and sf = Map.empty and c = "Finite 0" and k = 0]
    threshold_priority [where m = "[''threshold_Chosen'' \<mapsto> JFloat (Finite 0.75)]"
      and y = "Finite 0" and n = 0 and sf = Map.empty and c = "Finite 0.75" and k = 0]
    threshold_priority [where m = "[''threshold_Chosen'' \<mapsto> JFloat (Finite 0.75),
        ''threshold_Youden'' \<mapsto> JFloat (Finite 0.25)]"
      and y = "Finite 0.25" and n = 0 and sf = Map.empty and c = "Finite 0" and k = 0]
    threshold_priority [where m = "[''threshold_Youden'' \<mapsto> JInt 1]"
      and y = "Finite 0" and n = 1 and sf = Map.empty and c = "Finite 0" and k = 0]
    threshold_priority [where m = Map.empty
      and y = "Finite 0" and n = 0 and sf = Map.empty and c = "Finite 0" and k = 0]
  by simp

text \<open>
  C7, as the spec states it: every config file gives a threshold within [0,1]. It fails:
  a file holding \<open>{"threshold_Youden": 1.5}\<close> gives the threshold 1.5.
\<close>

theorem threshold_out_of_range_counterexample:
  "\<not> in_unit_interval (fst (resolve_threshold Map.empty
        (Parsed (JDict [''threshold_Youden'' \<mapsto> JFloat (Finite 1.5)]))))"
  by (simp add: resolve_threshold_converted thr_cfg_value_dict py_float_JFloat
      in_unit_interval_def)

text \<open>
  C7, amended. The resolver checks no range: the threshold is 0.5 or the float the
  selected entry converts to. So it lies within [0,1] for every config file whose selected
  entry (the Youden one, else the chosen one), when it converts to a float at all,
  converts to one within [0,1].
\<close>

theorem threshold_in_unit_interval_if_configured_so:
  assumes "\<And>v t. thr_cfg_value f = Inr v \<Longrightarrow> py_float sf v = Inr t \<Longrightarrow> in_unit_interval t"
  shows "in_unit_interval (fst (resolve_threshold sf f))"
proof (cases "thr_cfg_value f")
  case (Inl e)
  then show ?thesis
    by (simp add: resolve_threshold_no_value in_unit_interval_def)
next
  case (Inr v)
  show ?thesis
  proof (cases "py_float sf v")
    case (Inl e)
    with Inr show ?thesis
      by (simp add: resolve_threshold_conversion_fails in_unit_interval_def)
  next
    case inner: (Inr t)
    with Inr assms have "in_unit_interval t"
      by blast
    with Inr inner show ?thesis
      by (simp add: resolve_threshold_converted)
  qed
qed

theorem threshold_in_unit_interval_witness:
  "in_unit_interval (fst (resolve_threshold Map.empty
      (Parsed (JDict [''threshold_Youden'' \<mapsto> JFloat (Finite 0.25)]))))"
proof -
  have h: "\<And>v t. thr_cfg_value (Parsed (JDict [''threshold_Youden'' \<mapsto> JFloat (Finite 0.25)])) = Inr v
      \<Longrightarrow> py_float Map.empty v = Inr t \<Longrightarrow> in_unit_interval t"
    by (auto simp add: thr_cfg_value_dict py_float_JFloat in_unit_interval_def)
  show ?thesis
    using threshold_in_unit_interval_if_configured_so [of _ Map.empty, OF h] by simp
qed

text \<open>
  C8. The label does not follow the source of the value. A readable file with only the
  chosen entry, and a readable file with neither entry, both give the label of the Youden
  source.
\<close>

theorem thr_source_says_youden_for_chosen_and_default:
  "resolve_threshold sf (Parsed (JDict [''threshold_Chosen'' \<mapsto> JFloat (Finite 0.25)]))
     = (Finite 0.25, ''Youden (from rf_thresholds.json)'')
   \<and> resolve_threshold sf (Parsed (JDict Map.empty))
     = (Finite 0.5, ''Youden (from rf_thresholds.json)'')"
  by (simp add: resolve_threshold_converted thr_cfg_value_dict py_float_JFloat DEFAULT_THR_def)

text \<open>
  C10. Resolution always ends with a threshold and a label: the body of the \<open>try\<close> either
  gives a float, which is the threshold, or raises, and then the threshold is exactly 0.5.
  It raises, and gives 0.5, when the file is absent, unreadable or not JSON, when the
  parsed value is not a dict, and when the selected entry is null, a list, a dict or a
  string that is no float literal.
\<close>

theorem threshold_resolution_total:
  "((\<exists>t. read_threshold sf f = Inr t
         \<and> resolve_threshold sf f = (t, ''Youden (from rf_thresholds.json)''))
    \<or> (\<exists>e. read_threshold sf f = Inl e
         \<and> resolve_threshold sf f = (Finite 0.5, ''Default 0.5 (threshold file missing)'')))
   \<and> fst (resolve_threshold sf Absent) = Finite 0.5
   \<and> fst (resolve_threshold sf Unreadable) = Finite 0.5
   \<and> fst (resolve_threshold sf InvalidJSON) = Finite 0.5
   \<and> ((\<forall>m. j \<noteq> JDict m) \<longrightarrow> fst (resolve_threshold sf (Parsed j)) = Finite 0.5)
   \<and> (thr_cfg_value f = Inr JNull \<longrightarrow> fst (resolve_threshold sf f) = Finite 0.5)
   \<and> (thr_cfg_value f = Inr (JList xs) \<longrightarrow> fst (resolve_threshold sf f) = Finite 0.5)
   \<and> (thr_cfg_value f = Inr (JDict d) \<longrightarrow> fst (resolve_threshold sf f) = Finite 0.5)
   \<and> (thr_cfg_value f = Inr (JStr s) \<and> sf s = None \<longrightarrow>
        fst (resolve_threshold sf f) = Finite 0.5)
   \<and> (m ''threshold_Youden'' = None \<and> m ''threshold_Chosen'' = None \<longrightarrow>
        fst (resolve_threshold sf (Parsed (JDict m))) = Finite 0.5)"
proof (intro conjI impI)
  show "(\<exists>t. read_threshold sf f = Inr t
           \<and> resolve_threshold sf f = (t, ''Youden (from rf_thresholds.json)''))
      \<or> (\<exists>e. read_threshold sf f = Inl e
           \<and> resolve_threshold sf f = (Finite 0.5, ''Default 0.5 (threshold file missing)''))"
    by (cases "read_threshold sf f") (simp_all add: resolve_threshold_def DEFAULT_THR_def)
next
  show "fst (resolve_threshold sf Absent) = Finite 0.5"
    by (simp add: resolve_threshold_no_value thr_cfg_value_no_file)
next
  show "fst (resolve_threshold sf Unreadable) = Finite 0.5"
    by (simp add: resolve_threshold_no_value thr_cfg_value_no_file)
next
  show "fst (resolve_threshold sf InvalidJSON) = Finite 0.5"
    by (simp add: resolve_threshold_no_value thr_cfg_value_no_file)
next
  assume "\<forall>m. j \<noteq> JDict m"
  then show "fst (resolve_threshold sf (Parsed j)) = Finite 0.5"
    by (simp add: resolve_threshold_no_value thr_cfg_value_not_dict)
next
  assume "thr_cfg_value f = Inr JNull"
  then show "fst (resolve_threshold sf f) = Finite 0.5"
    by (simp add: resolve_threshold_conversion_fails py_float_not_a_number)
next
  assume "thr_cfg_value f = Inr (JList xs)"
  then show "fst (resolve_threshold sf f) = Finite 0.5"
    by (simp add: resolve_threshold_conversion_fails py_float_not_a_number)
next
  assume "thr_cfg_value f = Inr (JDict d)"
  then show "fst (resolve_threshold sf f) = Finite 0.5"
    by (simp add: resolve_threshold_conversion_fails py_float_not_a_number)
next
  assume "thr_cfg_value f = Inr (JStr s) \<and> sf s = None"
  then show "fst (resolve_threshold sf f) = Finite 0.5"
    by (simp add: resolve_threshold_conversion_fails py_float_not_a_number)
next
  assume "m ''threshold_Youden'' = None \<and> m ''threshold_Chosen'' = None"
  then have "thr_cfg_value (Parsed (JDict m)) = Inr (JFloat DEFAULT_THR)"
    by (simp add: thr_cfg_value_dict)
  then show "fst (resolve_threshold sf (Parsed (JDict m))) = Finite 0.5"
    by (simp add: resolve_threshold_converted py_float_JFloat DEFAULT_THR_def)
qed

theorem threshold_resolution_total_witness:
  "fst (resolve_threshold Map.empty (Parsed (JList []))) = Finite 0.5
   \<and> fst (resolve_threshold Map.empty
       (Parsed (JDict [''threshold_Youden'' \<mapsto> JNull]))) = Finite 0.5
   \<and> fst (resolve_threshold Map.empty
       (Parsed (JDict [''threshold_Chosen'' \<mapsto> JStr ''high'']))) = Finite 0.5
   \<and> fst (resolve_threshold Map.empty (Parsed (JDict Map.empty))) = Finite 0.5"
  using
    threshold_resolution_total [where sf = Map.empty and j = "JList []"
      and f = "Parsed (JDict [''threshold_Youden'' \<mapsto> JNull])"
      and xs = "[]" and d = Map.empty and s = "''high''" and m = Map.empty]
    threshold_resolution_total [where sf = Map.empty and j = "JList []"
      and f = "Parsed (JDict [''threshold_Chosen'' \<mapsto> JStr ''high''])"
      and xs = "[]" and d = Map.empty and s = "''high''" and m = Map.empty]
  by (simp add: thr_cfg_value_dict)


section \<open>The record\<close>

text \<open>
  C3. Whatever the widgets return, the frame built from the row has the fifteen columns
  of FEATURES, in that order and each once; the row's keys are those fifteen names in the
  same order, so the single row of the frame holds every value of the row and no cell is
  missing.
\<close>

theorem X_input_has_the_declared_columns:
  "df_columns (X_input f) =
     [''Age'', ''Gender'', ''Herniated_Level'', ''Priffmann'', ''Iwabuchi'', ''Modic'',
      ''Komori'', ''MSU'', ''Spinal_canal_stenosis'', ''Bull_eye'', ''SS'',
      ''Upper_VB_Posterior_Height_CM'', ''Lower_VB_Posterior_Height_CM'',
      ''Initial_volume'', ''Months_of_Review'']
   \<and> df_columns (X_input f) = FEATURES
   \<and> length (df_columns (X_input f)) = 15
   \<and> distinct (df_columns (X_input f))
   \<and> map fst (row f) = FEATURES
   \<and> df_rows (X_input f) = [map snd (row f)]
   \<and> MissingCell \<notin> set (map snd (row f))"
proof (intro conjI)
  show "df_columns (X_input f) =
     [''Age'', ''Gender'', ''Herniated_Level'', ''Priffmann'', ''Iwabuchi'', ''Modic'',
      ''Komori'', ''MSU'', ''Spinal_canal_stenosis'', ''Bull_eye'', ''SS'',
      ''Upper_VB_Posterior_Height_CM'', ''Lower_VB_Posterior_Height_CM'',
      ''Initial_volume'', ''Months_of_Review'']"
    by (simp add: X_input_def DataFrame_def FEATURES_def)
next
  show "df_columns (X_input f) = FEATURES"
    by (simp add: X_input_def DataFrame_def)
next
  show "length (df_columns (X_input f)) = 15"
    by (simp add: X_input_def DataFrame_def FEATURES_def)
next
  show "distinct (df_columns (X_input f))"
    by (simp add: X_input_def DataFrame_def FEATURES_def)
next
  show "map fst (row f) = FEATURES"
    by (simp add: row_def FEATURES_def)
next
  show "df_rows (X_input f) = [map snd (row f)]"
    by (simp add: X_input_def DataFrame_def FEATURES_def row_def)
next
  show "MissingCell \<notin> set (map snd (row f))"
    by (simp add: row_def)
qed

text \<open>
  C4. Code 0 gives "Female" and code 1 gives "Male"; every code gives one of the two,
  and every code other than 1 gives "Female".
\<close>

theorem gender_label_two_values:
  "gender_label 0 = ''Female''
   \<and> gender_label 1 = ''Male''
   \<and> (gender_label g = ''Female'' \<or> gender_label g = ''Male'')
   \<and> (g \<noteq> 1 \<longrightarrow> gender_label g = ''Female'')"
  by (simp add: gender_label_def)

theorem gender_label_two_values_witness:
  "gender_label 7 = ''Female'' \<and> gender_label (- 3) = ''Female''"
  using gender_label_two_values [of 7] gender_label_two_values [of "- 3"] by simp

section \<open>The predict trigger\<close>

lemma py_ge_Finite: "py_ge (Finite x) (Finite t) = (t \<le> x)"
  by (simp add: py_ge_def)

lemma py_ge_same: "p \<noteq> NaN \<Longrightarrow> py_ge p p"
  by (cases p) (simp_all add: py_ge_def)

lemma on_predict_returns:
  "model s (X_input (inputs s)) = Inr p \<Longrightarrow>
     on_predict s =
       (s\<lparr>proba := Some p,
          pred_cls := Some (if py_ge p (THRESHOLD s) then 1 else 0),
          label := Some (if py_ge p (THRESHOLD s) then ''Resorption (1)''
                         else ''Non-resorption (0)'')\<rparr>,
        [predict_proba (X_input (inputs s)),
         st_success
           [Lit ''Predicted probability: '', Fmt_2pct p,
            Lit ('' '' @ wide_bar @ '' Threshold: ''), Fmt_4f (THRESHOLD s),
            Lit ('' '' @ wide_bar @ '' Classification: ''),
            Lit (if py_ge p (THRESHOLD s) then ''Resorption (1)''
                 else ''Non-resorption (0)'')]])"
  by (simp add: on_predict_def Let_def)

lemma on_predict_raises:
  "model s (X_input (inputs s)) = Inl x \<Longrightarrow>
     on_predict s =
       (s,
        [predict_proba (X_input (inputs s)),
         st_error [Lit ''Prediction failed: '', Lit (exc_str x)],
         st_info
           [Lit (''Please check that the feature names and values match the training set. '' @
                 ''The pipeline already includes OHE and scaling.'')]])"
  by (simp add: on_predict_def)

text \<open>
  C1. When the model returns the probability \<open>p\<close>, the class is 1 and the label is the
  positive one exactly when \<open>p >= THRESHOLD\<close>, and otherwise the class is 0 and the label
  the negative one. On finite floats that is the order of the reals. A probability equal
  to the threshold gives the positive label.
\<close>

theorem label_positive_iff_proba_ge_threshold:
  assumes "model s (X_input (inputs s)) = Inr p"
  shows "(pred_cls (fst (on_predict s)) = Some 1 \<longleftrightarrow> py_ge p (THRESHOLD s))
    \<and> (pred_cls (fst (on_predict s)) = Some 0 \<longleftrightarrow> \<not> py_ge p (THRESHOLD s))
    \<and> (label (fst (on_predict s)) = Some ''Resorption (1)'' \<longleftrightarrow> py_ge p (THRESHOLD s))
    \<and> (label (fst (on_predict s)) = Some ''Non-resorption (0)'' \<longleftrightarrow> \<not> py_ge p (THRESHOLD s))
    \<and> (\<forall>x t. p = Finite x \<and> THRESHOLD s = Finite t \<longrightarrow>
          (label (fst (on_predict s)) = Some ''Resorption (1)'' \<longleftrightarrow> t \<le> x))
    \<and> (p = THRESHOLD s \<and> p \<noteq> NaN \<longrightarrow> label (fst (on_predict s)) = Some ''Resorption (1)'')
    \<and> proba (fst (on_predict s)) = Some p"
proof -
  have cls: "pred_cls (fst (on_predict s)) = Some (if py_ge p (THRESHOLD s) then 1 else 0)"
    using assms by (simp add: on_predict_returns)
  have lbl: "label (fst (on_predict s)) =
      Some (if py_ge p (THRESHOLD s) then ''Resorption (1)'' else ''Non-resorption (0)'')"
    using assms by (simp add: on_predict_returns)
  have prb: "proba (fst (on_predict s)) = Some p"
    using assms by (simp add: on_predict_returns)
  have same: "p = THRESHOLD s \<and> p \<noteq> NaN \<longrightarrow> py_ge p (THRESHOLD s)"
    using py_ge_same [of p] by auto
  show ?thesis
    using same by (auto simp add: cls lbl prb py_ge_Finite)
qed

theorem label_positive_iff_proba_ge_threshold_witness:
  "label (fst (on_predict
      \<lparr>THRESHOLD = Finite 0.5, thr_source = ''Default 0.5 (threshold file missing)'',
       model = (\<lambda>X. Inr (Finite 0.5)), inputs = example_inputs,
       proba = None, pred_cls = None, label = None\<rparr>)) = Some ''Resorption (1)''
   \<and> label (fst (on_predict
      \<lparr>THRESHOLD = Finite 0.5, thr_source = ''Default 0.5 (threshold file missing)'',
       model = (\<lambda>X. Inr (Finite 0.25)), inputs = example_inputs,
       proba = None, pred_cls = None, label = None\<rparr>)) = Some ''Non-resorption (0)''"
  using
    label_positive_iff_proba_ge_threshold
      [where s = "\<lparr>THRESHOLD = Finite 0.5, thr_source = ''Default 0.5 (threshold file missing)'',
         model = (\<lambda>X. Inr (Finite 0.5)), inputs = example_inputs,
         proba = None, pred_cls = None, label = None\<rparr>" and p = "Finite 0.5"]
    label_positive_iff_proba_ge_threshold
      [where s = "\<lparr>THRESHOLD = Finite 0.5, thr_source = ''Default 0.5 (threshold file missing)'',
         model = (\<lambda>X. Inr (Finite 0.25)), inputs = example_inputs,
         proba = None, pred_cls = None, label = None\<rparr>" and p = "Finite 0.25"]
  by (simp add: py_ge_Finite)

text \<open>
  C9. For the example inputs the row has Gender "Male" and the frame holds the fifteen
  values in schema order; a model that returns 0.62 for that frame, with the threshold
  0.47, gives class 1 and the positive label.
\<close>

theorem example_scenario:
  "map_of (row example_inputs) ''Gender'' = Some (StrCell ''Male'')
   \<and> df_rows (X_input example_inputs) =
       [[IntCell 50, StrCell ''Male'', StrCell ''L4/5'', IntCell 2, IntCell 2, IntCell 0,
         IntCell 2, IntCell 2, IntCell 0, IntCell 1, FloatCell (Finite 30.0),
         FloatCell (Finite 2.5), FloatCell (Finite 2.4), FloatCell (Finite 4.0), IntCell 6]]
   \<and> (inputs s = example_inputs
        \<and> model s (X_input example_inputs) = Inr (Finite 0.62)
        \<and> THRESHOLD s = Finite 0.47 \<longrightarrow>
      pred_cls (fst (on_predict s)) = Some 1
        \<and> label (fst (on_predict s)) = Some ''Resorption (1)'')"
proof (intro conjI impI)
  show "map_of (row example_inputs) ''Gender'' = Some (StrCell ''Male'')"
    by (simp add: row_def example_inputs_def gender_label_def)
next
  show "df_rows (X_input example_inputs) =
       [[IntCell 50, StrCell ''Male'', StrCell ''L4/5'', IntCell 2, IntCell 2, IntCell 0,
         IntCell 2, IntCell 2, IntCell 0, IntCell 1, FloatCell (Finite 30.0),
         FloatCell (Finite 2.5), FloatCell (Finite 2.4), FloatCell (Finite 4.0), IntCell 6]]"
    by (simp add: X_input_def DataFrame_def FEATURES_def row_def example_inputs_def
        gender_label_def)
next
  assume h: "inputs s = example_inputs
      \<and> model s (X_input example_inputs) = Inr (Finite 0.62)
      \<and> THRESHOLD s = Finite 0.47"
  then have "model s (X_input (inputs s)) = Inr (Finite 0.62)"
    by simp
  then have "on_predict s =
      (s\<lparr>proba := Some (Finite 0.62),
         pred_cls := Some (if py_ge (Finite 0.62) (THRESHOLD s) then 1 else 0),
         label := Some (if py_ge (Finite 0.62) (THRESHOLD s) then ''Resorption (1)''
                        else ''Non-resorption (0)'')\<rparr>,
       [predict_proba (X_input (inputs s)),
        st_success
          [Lit ''Predicted probability: '', Fmt_2pct (Finite 0.62),
           Lit ('' '' @ wide_bar @ '' Threshold: ''), Fmt_4f (THRESHOLD s),
           Lit ('' '' @ wide_bar @ '' Classification: ''),
           Lit (if py_ge (Finite 0.62) (THRESHOLD s) then ''Resorption (1)''
                else ''Non-resorption (0)'')]])"
    by (rule on_predict_returns)
  with h show "pred_cls (fst (on_predict s)) = Some 1"
    by (simp add: py_ge_Finite)
  from \<open>on_predict s = _\<close> h show "label (fst (on_predict s)) = Some ''Resorption (1)''"
    by (simp add: py_ge_Finite)
qed

theorem example_scenario_witness:
  "pred_cls (fst (on_predict
      \<lparr>THRESHOLD = Finite 0.47, thr_source = ''Youden (from rf_thresholds.json)'',
       model = (\<lambda>X. Inr (Finite 0.62)), inputs = example_inputs,
       proba = None, pred_cls = None, label = None\<rparr>)) = Some 1
   \<and> label (fst (on_predict
      \<lparr>THRESHOLD = Finite 0.47, thr_source = ''Youden (from rf_thresholds.json)'',
       model = (\<lambda>X. Inr (Finite 0.62)), inputs = example_inputs,
       proba = None, pred_cls = None, label = None\<rparr>)) = Some ''Resorption (1)''"
  using example_scenario
      [where s = "\<lparr>THRESHOLD = Finite 0.47, thr_source = ''Youden (from rf_thresholds.json)'',
         model = (\<lambda>X. Inr (Finite 0.62)), inputs = example_inputs,
         proba = None, pred_cls = None, label = None\<rparr>"]
  by simp

section \<open>Loading the model\<close>

lemma app_after_caption:
  "drop 2 (app sf e) =
     (case load_model (pkl_file e) (MODEL_PATH e) of
        (loading, None) \<Rightarrow> loading
      | (loading, Some m) \<Rightarrow>
          loading @
          [st_title ''Prediction of Lumbar Disc Herniation Resorption (Random Forest)'',
           st_caption
             [Lit (warning_sign @
                '' For research and decision support only, not for clinical use'')],
           st_info [Lit ''Model successfully loaded: '', Lit (MODEL_PATH e)]] @
          form_events @
          [st_divider,
           st_write ''**Current Input Preview:**'',
           st_dataframe (X_input (widgets e)),
           st_divider,
           st_button ''Predict Resorption Probability''] @
          (if button_pressed e
           then snd (on_predict
                  \<lparr>THRESHOLD = fst (resolve_threshold sf (threshold_file e)),
                   thr_source = snd (resolve_threshold sf (threshold_file e)),
                   model = m, inputs = widgets e,
                   proba = None, pred_cls = None, label = None\<rparr>)
           else []))"
  by (simp add: app_def case_prod_beta)

lemma take_2_app:
  "take 2 (app sf e) =
     [st_set_page_config
        ''Lumbar Disc Herniation Resorption Probability Calculator (Random Forest)''
        ''centered'',
      st_caption
        [Lit ''Current classification threshold: '',
         Fmt_4f (fst (resolve_threshold sf (threshold_file e))),
         Lit (''  '' @ em_dash @ ''  ''),
         Lit (snd (resolve_threshold sf (threshold_file e)))]]"
  by (simp add: app_def case_prod_beta)

lemma app_split: "app sf e = take 2 (app sf e) @ drop 2 (app sf e)"
  by simp

lemma app_no_model:
  assumes "pkl_file e = NoFile \<or> pkl_file e = LoadFails x"
  shows "drop 2 (app sf e) =
     (if pkl_file e = NoFile
      then [st_error [Lit ''Model file not found: '', Lit (MODEL_PATH e)], st_stop]
      else [joblib_load (MODEL_PATH e),
            st_error [Lit ''Model loading failed: '', Lit (exc_str x)], st_stop])"
  using assms by (auto simp add: app_after_caption load_model_def)

text \<open>
  C5. With no model file, or with a file \<open>joblib.load\<close> fails on, the run renders one
  error, naming the path or the failure, and stops there: after the threshold caption it
  consists of the error and the stop (with the one call of \<open>joblib.load\<close> before them when
  the file exists). No widget is created, \<open>predict_proba\<close> is never called, and
  \<open>joblib.load\<close> is called at most once.
\<close>

theorem model_load_failure_stops_the_run:
  assumes "pkl_file e = NoFile \<or> pkl_file e = LoadFails x"
  shows "drop 2 (app sf e) =
      (if pkl_file e = NoFile
       then [st_error [Lit ''Model file not found: '', Lit (MODEL_PATH e)], st_stop]
       else [joblib_load (MODEL_PATH e),
             st_error [Lit ''Model loading failed: '', Lit (exc_str x)], st_stop])
    \<and> length (filter renders_error (app sf e)) = 1
    \<and> last (app sf e) = st_stop
    \<and> filter renders_widget (app sf e) = []
    \<and> filter calls_predict_proba (app sf e) = []
    \<and> length (filter calls_joblib_load (app sf e)) \<le> 1"
proof -
  note tail = app_no_model [OF assms, of sf]
  have whole: "app sf e = take 2 (app sf e) @
      (if pkl_file e = NoFile
       then [st_error [Lit ''Model file not found: '', Lit (MODEL_PATH e)], st_stop]
       else [joblib_load (MODEL_PATH e),
             st_error [Lit ''Model loading failed: '', Lit (exc_str x)], st_stop])"
    using app_split [of sf e] tail by simp
  have errors: "length (filter renders_error (app sf e)) = 1"
    by (subst whole) (simp add: take_2_app renders_error_def)
  have stops: "last (app sf e) = st_stop"
    by (subst whole) simp
  have widgets: "filter renders_widget (app sf e) = []"
    by (subst whole) (simp add: take_2_app renders_widget_def)
  have predicts: "filter calls_predict_proba (app sf e) = []"
    by (subst whole) (simp add: take_2_app calls_predict_proba_def)
  have loads: "length (filter calls_joblib_load (app sf e)) \<le> 1"
    by (subst whole) (simp add: take_2_app calls_joblib_load_def)
  from tail errors stops widgets predicts loads show ?thesis
    by blast
qed

theorem model_load_failure_witness:
  "last (app Map.empty
      \<lparr>threshold_file = Absent, MODEL_PATH = ''/app/best_model_random_forest.pkl'',
       pkl_file = NoFile, widgets = example_inputs, button_pressed = True\<rparr>) = st_stop
   \<and> filter renders_widget (app Map.empty
      \<lparr>threshold_file = Absent, MODEL_PATH = ''/app/best_model_random_forest.pkl'',
       pkl_file = LoadFails (Exception ''invalid load key''), widgets = example_inputs,
       button_pressed = True\<rparr>) = []"
  using
    model_load_failure_stops_the_run
      [where sf = Map.empty and x = "Exception ''invalid load key''" and
        e = "\<lparr>threshold_file = Absent, MODEL_PATH = ''/app/best_model_random_forest.pkl'',
          pkl_file = NoFile, widgets = example_inputs, button_pressed = True\<rparr>"]
    model_load_failure_stops_the_run
      [where sf = Map.empty and x = "Exception ''invalid load key''" and
        e = "\<lparr>threshold_file = Absent, MODEL_PATH = ''/app/best_model_random_forest.pkl'',
          pkl_file = LoadFails (Exception ''invalid load key''), widgets = example_inputs,
          button_pressed = True\<rparr>"]
  by simp

section \<open>A failing prediction\<close>

lemma app_with_model:
  "pkl_file e = Loads m \<Longrightarrow>
     drop 2 (app sf e) =
       [joblib_load (MODEL_PATH e),
        st_title ''Prediction of Lumbar Disc Herniation Resorption (Random Forest)'',
        st_caption
          [Lit (warning_sign @
             '' For research and decision support only, not for clinical use'')],
        st_info [Lit ''Model successfully loaded: '', Lit (MODEL_PATH e)]] @
       form_events @
       [st_divider,
        st_write ''**Current Input Preview:**'',
        st_dataframe (X_input (widgets e)),
        st_divider,
        st_button ''Predict Resorption Probability''] @
       (if button_pressed e
        then snd (on_predict
               \<lparr>THRESHOLD = fst (resolve_threshold sf (threshold_file e)),
                thr_source = snd (resolve_threshold sf (threshold_file e)),
                model = m, inputs = widgets e,
                proba = None, pred_cls = None, label = None\<rparr>)
        else [])"
  by (simp add: app_after_caption load_model_def)

text \<open>
  C6. When \<open>predict_proba\<close> raises, the handler leaves every variable of the session as
  it was (threshold, model, widget values; it binds no result), calls \<open>predict_proba\<close>
  once and renders the error with the exception's text, then a hint; it does not stop the
  script. The whole run then ends after that hint, with the form rendered.
\<close>

theorem failed_prediction_is_reported:
  assumes "model s (X_input (inputs s)) = Inl x"
  shows "fst (on_predict s) = s
    \<and> snd (on_predict s) =
        [predict_proba (X_input (inputs s)),
         st_error [Lit ''Prediction failed: '', Lit (exc_str x)],
         st_info
           [Lit (''Please check that the feature names and values match the training set. '' @
                 ''The pipeline already includes OHE and scaling.'')]]
    \<and> length (filter calls_predict_proba (snd (on_predict s))) = 1
    \<and> st_stop \<notin> set (snd (on_predict s))
    \<and> (pkl_file e = Loads (model s) \<and> button_pressed e \<and> widgets e = inputs s \<longrightarrow>
         st_stop \<notin> set (app sf e)
         \<and> last (app sf e) =
             st_info
               [Lit (''Please check that the feature names and values match the training set. '' @
                     ''The pipeline already includes OHE and scaling.'')]
         \<and> length (filter calls_predict_proba (app sf e)) = 1
         \<and> length (filter renders_widget (app sf e)) = 16)"
proof -
  note handler = on_predict_raises [OF assms]
  have unchanged: "fst (on_predict s) = s"
    by (simp add: handler)
  have events: "snd (on_predict s) =
        [predict_proba (X_input (inputs s)),
         st_error [Lit ''Prediction failed: '', Lit (exc_str x)],
         st_info
           [Lit (''Please check that the feature names and values match the training set. '' @
                 ''The pipeline already includes OHE and scaling.'')]]"
    by (simp add: handler)
  have once: "length (filter calls_predict_proba (snd (on_predict s))) = 1"
    by (simp add: events calls_predict_proba_def)
  have no_stop: "st_stop \<notin> set (snd (on_predict s))"
    by (simp add: events)
  have run: "st_stop \<notin> set (app sf e)
         \<and> last (app sf e) =
             st_info
               [Lit (''Please check that the feature names and values match the training set. '' @
                     ''The pipeline already includes OHE and scaling.'')]
         \<and> length (filter calls_predict_proba (app sf e)) = 1
         \<and> length (filter renders_widget (app sf e)) = 16"
    if h: "pkl_file e = Loads (model s) \<and> button_pressed e \<and> widgets e = inputs s"
  proof -
    let ?s' = "\<lparr>THRESHOLD = fst (resolve_threshold sf (threshold_file e)),
                thr_source = snd (resolve_threshold sf (threshold_file e)),
                model = model s, inputs = widgets e,
                proba = None, pred_cls = None, label = None\<rparr>"
    have "model ?s' (X_input (inputs ?s')) = Inl x"
      using assms h by simp
    then have handler': "snd (on_predict ?s') =
        [predict_proba (X_input (inputs ?s')),
         st_error [Lit ''Prediction failed: '', Lit (exc_str x)],
         st_info
           [Lit (''Please check that the feature names and values match the training set. '' @
                 ''The pipeline already includes OHE and scaling.'')]]"
      by (simp add: on_predict_raises)
    have tail: "drop 2 (app sf e) =
       [joblib_load (MODEL_PATH e),
        st_title ''Prediction of Lumbar Disc Herniation Resorption (Random Forest)'',
        st_caption
          [Lit (warning_sign @
             '' For research and decision support only, not for clinical use'')],
        st_info [Lit ''Model successfully loaded: '', Lit (MODEL_PATH e)]] @
       form_events @
       [st_divider,
        st_write ''**Current Input Preview:**'',
        st_dataframe (X_input (widgets e)),
        st_divider,
        st_button ''Predict Resorption Probability''] @
       snd (on_predict ?s')"
      using h app_with_model [of e "model s" sf] by simp
    have whole: "app sf e = take 2 (app sf e) @ drop 2 (app sf e)"
      by simp
    have a: "st_stop \<notin> set (app sf e)"
      by (subst whole) (simp add: take_2_app tail handler' form_events_def del: append_take_drop_id)
    have b: "last (app sf e) =
             st_info
               [Lit (''Please check that the feature names and values match the training set. '' @
                     ''The pipeline already includes OHE and scaling.'')]"
      by (subst whole) (simp add: tail handler' del: append_take_drop_id)
    have c: "length (filter calls_predict_proba (app sf e)) = 1"
      by (subst whole)
        (simp add: take_2_app tail handler' form_events_def calls_predict_proba_def
          del: append_take_drop_id)
    have d: "length (filter renders_widget (app sf e)) = 16"
      by (subst whole)
        (simp add: take_2_app tail handler' form_events_def renders_widget_def
          del: append_take_drop_id)
    from a b c d show ?thesis
      by blast
  qed
  from unchanged events once no_stop run show ?thesis
    by blast
qed

theorem failed_prediction_witness:
  "on_predict
      \<lparr>THRESHOLD = Finite 0.5, thr_source = ''Default 0.5 (threshold file missing)'',
       model = (\<lambda>X. Inl (Exception ''columns are missing'')), inputs = example_inputs,
       proba = None, pred_cls = None, label = None\<rparr>
   = (\<lparr>THRESHOLD = Finite 0.5, thr_source = ''Default 0.5 (threshold file missing)'',
       model = (\<lambda>X. Inl (Exception ''columns are missing'')), inputs = example_inputs,
       proba = None, pred_cls = None, label = None\<rparr>,
      [predict_proba (X_input example_inputs),
       st_error [Lit ''Prediction failed: '', Lit ''columns are missing''],
       st_info
         [Lit (''Please check that the feature names and values match the training set. '' @
               ''The pipeline already includes OHE and scaling.'')]])"
  using failed_prediction_is_reported
      [where s = "\<lparr>THRESHOLD = Finite 0.5,
         thr_source = ''Default 0.5 (threshold file missing)'',
         model = (\<lambda>X. Inl (Exception ''columns are missing'')), inputs = example_inputs,
         proba = None, pred_cls = None, label = None\<rparr>"
        and x = "Exception ''columns are missing''"]
  by (simp add: prod_eq_iff)

end
